theory Spec2Isabelle
  imports Main
begin

section \<open>Values of the JWKS provider (jwks/provider.go)\<close>

text \<open>
  A Go \<open>error\<close> value. \<open>Errorf f e\<close> is \<open>fmt.Errorf(f, e)\<close> for a format \<open>f\<close> ending in
  \<open>%w\<close>: the message \<open>f\<close> wrapped around \<open>e\<close>. \<open>URLError op u e\<close> is
  \<open>&url.Error{Op: op, URL: u, Err: e}\<close>, the error of the HTTP client. \<open>Err s\<close> is any
  other error, as a collaborator (net/url, net/http, encoding/json) produced it.
\<close>

datatype err = Err string | Errorf string err | URLError string string err

text \<open>
  A \<open>context.Context\<close>: the background context, a caller's context, or a context
  derived with a timeout (in nanoseconds, as \<open>time.Duration\<close> counts).
\<close>

datatype ctx = Background | Caller string | WithTimeout ctx int

text \<open>
  A \<open>*url.URL\<close> that is not nil, seen through the two methods the file calls on it.
\<close>

record url =
  url_String :: string
  url_Hostname :: string

text \<open>An \<open>*http.Client\<close>: \<open>&http.Client{}\<close> or one the host injected.\<close>

datatype http_Client = DefaultClient | CustomClient string

record Request =
  Request_ctx :: ctx
  Method :: string
  URL :: string

record Response =
  StatusCode :: nat
  Body :: string

datatype JSONWebKey = JSONWebKey (KeyID: string) (Algorithm: string)

datatype JSONWebKeySet = JSONWebKeySet (Keys: "JSONWebKey list")

record WellKnownEndpoints =
  JWKSURI :: string

text \<open>
  The collaborators of one \<open>Provider.KeyFunc\<close> invocation, none of them in
  jwks/provider.go: discovery (\<open>oidc.GetWellKnownEndpointsFromIssuerURL\<close>),
  \<open>url.Parse\<close>, \<open>http.NewRequestWithContext\<close>, \<open>(*http.Client).Do\<close> and
  \<open>json.NewDecoder(body).Decode\<close> into a \<open>jose.JSONWebKeySet\<close>. Each answers with
  \<open>Inl\<close> an error or \<open>Inr\<close> its result. \<open>elapsed\<close> is how long the invocation takes on
  the clock that \<open>time.Now()\<close> reads.
\<close>

record env =
  GetWellKnownEndpointsFromIssuerURL :: "ctx \<Rightarrow> http_Client \<Rightarrow> url \<Rightarrow> err + WellKnownEndpoints"
  url_Parse :: "string \<Rightarrow> err + url"
  NewRequestWithContext :: "ctx \<Rightarrow> string \<Rightarrow> string \<Rightarrow> err + Request"
  Client_Do :: "http_Client \<Rightarrow> Request \<Rightarrow> err + Response"
  Decode :: "string \<Rightarrow> err + JSONWebKeySet"
  elapsed :: nat

text \<open>The calls that leave the process, in the order they are made.\<close>

datatype event = Discovery ctx http_Client url | HTTPDo http_Client Request

text \<open>
  What a \<open>KeyFunc\<close> does: \<open>KeySet k\<close> is the return \<open>(&k, nil)\<close>, \<open>Failure e\<close> the return
  \<open>(nil, e)\<close>, \<open>Panic\<close> a nil pointer dereference.
\<close>

datatype outcome = KeySet JSONWebKeySet | Failure err | Panic

section \<open>The Key Fetcher\<close>

text \<open>
  \<open>IssuerURL\<close> and \<open>CustomJWKSURI\<close> are pointers, \<open>None\<close> is nil. \<open>Client\<close> is a pointer
  too; \<open>NewProvider\<close> sets it, and a nil client fails inside net/http and the discovery
  package, not in this file, so the model takes it to be a client.
\<close>

record Provider =
  IssuerURL :: "url option"
  CustomJWKSURI :: "url option"
  Client :: http_Client

text \<open>
  An option is a func value: \<open>None\<close> is the nil func, and calling it panics with a nil
  dereference. A func that is not nil is taken to return.
\<close>

type_synonym ProviderOption = "(Provider \<Rightarrow> Provider) option"

text \<open>
  The loops of lines 38 to 40 and 151 to 153, \<open>for _, opt := range opts { opt(p) }\<close>:
  \<open>None\<close> is the panic at the call of a nil option.
\<close>

fun apply_opts :: "('a \<Rightarrow> 'a) option list \<Rightarrow> 'a \<Rightarrow> 'a option" where
  "apply_opts [] p = Some p"
| "apply_opts (None # opts) p = None"
| "apply_opts (Some opt # opts) p = apply_opts opts (opt p)"

text \<open>\<open>NewProvider\<close>; \<open>None\<close> is the panic of a nil option.\<close>

definition NewProvider :: "url option \<Rightarrow> ProviderOption list \<Rightarrow> Provider option" where
  "NewProvider issuerURL opts =
     apply_opts opts \<lparr>IssuerURL = issuerURL, CustomJWKSURI = None, Client = DefaultClient\<rparr>"

definition WithCustomJWKSURI :: "url option \<Rightarrow> ProviderOption" where
  "WithCustomJWKSURI jwksURI = Some (\<lambda>p. p\<lparr>CustomJWKSURI := jwksURI\<rparr>)"

definition WithCustomClient :: "http_Client \<Rightarrow> ProviderOption" where
  "WithCustomClient c = Some (\<lambda>p. p\<lparr>Client := c\<rparr>)"

text \<open>
  Lines 65 to 76 of \<open>Provider.KeyFunc\<close>: the endpoint is the override when there is one,
  and the discovered one otherwise. \<open>Inl\<close> is an early exit of \<open>KeyFunc\<close>.
\<close>

definition resolve_jwksURI :: "env \<Rightarrow> ctx \<Rightarrow> Provider \<Rightarrow> event list \<times> (outcome + url)" where
  "resolve_jwksURI E c p =
     (case CustomJWKSURI p of
        Some jwksURI \<Rightarrow> ([], Inr jwksURI)
      | None \<Rightarrow>
          (case IssuerURL p of
             None \<Rightarrow> ([], Inl Panic)
           | Some issuer \<Rightarrow>
               (case GetWellKnownEndpointsFromIssuerURL E c (Client p) issuer of
                  Inl e \<Rightarrow> ([Discovery c (Client p) issuer], Inl (Failure e))
                | Inr wkEndpoints \<Rightarrow>
                    (case url_Parse E (JWKSURI wkEndpoints) of
                       Inl e \<Rightarrow>
                         ([Discovery c (Client p) issuer],
                          Inl (Failure
                            (Errorf ''could not parse JWKS URI from well known endpoints: %w'' e)))
                     | Inr jwksURI \<Rightarrow> ([Discovery c (Client p) issuer], Inr jwksURI)))))"

text \<open>Lines 78 to 94: build the request, send it, decode the body.\<close>

definition get_jwks :: "env \<Rightarrow> ctx \<Rightarrow> Provider \<Rightarrow> url \<Rightarrow> event list \<times> outcome" where
  "get_jwks E c p jwksURI =
     (case NewRequestWithContext E c ''GET'' (url_String jwksURI) of
        Inl e \<Rightarrow> ([], Failure (Errorf ''could not build request to get JWKS: %w'' e))
      | Inr request \<Rightarrow>
          (case Client_Do E (Client p) request of
             Inl e \<Rightarrow> ([HTTPDo (Client p) request], Failure e)
           | Inr response \<Rightarrow>
               (case Decode E (Body response) of
                  Inl e \<Rightarrow>
                    ([HTTPDo (Client p) request], Failure (Errorf ''could not decode jwks: %w'' e))
                | Inr jwks \<Rightarrow> ([HTTPDo (Client p) request], KeySet jwks))))"

definition Provider_KeyFunc :: "env \<Rightarrow> ctx \<Rightarrow> Provider \<Rightarrow> event list \<times> outcome" where
  "Provider_KeyFunc E c p =
     (case resolve_jwksURI E c p of
        (evs, Inl r) \<Rightarrow> (evs, r)
      | (evs, Inr jwksURI) \<Rightarrow>
          (case get_jwks E c p jwksURI of (evs', r) \<Rightarrow> (evs @ evs', r)))"

definition is_Discovery :: "event \<Rightarrow> bool" where
  "is_Discovery ev = (case ev of Discovery _ _ _ \<Rightarrow> True | HTTPDo _ _ \<Rightarrow> False)"

definition is_HTTPDo :: "event \<Rightarrow> bool" where
  "is_HTTPDo ev = (case ev of Discovery _ _ _ \<Rightarrow> False | HTTPDo _ _ \<Rightarrow> True)"

section \<open>The Caching Layer\<close>

record cachedJWKS =
  jwks :: JSONWebKeySet
  expiresAt :: int

text \<open>
  \<open>semaphore.Weighted\<close> (golang.org/x/sync), as far as the file uses it: \<open>TryAcquire\<close>
  takes \<open>n\<close> permits when that many are free and never waits; \<open>Release\<close> gives them
  back and panics (the flag) when more are released than held. \<open>sem_cur\<close> counts the
  permits held.
\<close>

record Weighted =
  sem_size :: nat
  sem_cur :: nat

definition NewWeighted :: "nat \<Rightarrow> Weighted" where
  "NewWeighted n = \<lparr>sem_size = n, sem_cur = 0\<rparr>"

definition TryAcquire :: "nat \<Rightarrow> Weighted \<Rightarrow> bool \<times> Weighted" where
  "TryAcquire n s =
     (if sem_cur s + n \<le> sem_size s then (True, s\<lparr>sem_cur := sem_cur s + n\<rparr>) else (False, s))"

definition Release :: "nat \<Rightarrow> Weighted \<Rightarrow> bool \<times> Weighted" where
  "Release n s = (sem_cur s < n, s\<lparr>sem_cur := sem_cur s - n\<rparr>)"

text \<open>
  The struct without its lock \<open>mu\<close>: a call that runs alone finds \<open>mu\<close> free and leaves it
  free. The lock is part of the interleaving model further down. The embedded
  \<open>*Provider\<close> is the one \<open>NewCachingProvider\<close> made. Times are nanoseconds on one
  clock, \<open>time.Duration\<close> and \<open>time.Time\<close> as integers.
\<close>

record CachingProvider =
  provider :: Provider
  CacheTTL :: int
  cache :: "string \<rightharpoonup> cachedJWKS"
  sem :: Weighted
  synchronousRefresh :: bool

type_synonym CachingProviderOption = "(CachingProvider \<Rightarrow> CachingProvider) option"

text \<open>
  What the code reads and does outside the struct: the clock behind \<open>time.Now()\<close>, and
  the Key Fetcher invocations made so far, each with the context it was given.
\<close>

record world =
  now :: int
  fetches :: "ctx list"

text \<open>
  An element of \<open>opts ...interface{}\<close> by its dynamic type; \<open>OtherValue t\<close> is a value of
  any other type, \<open>t\<close> what \<open>%T\<close> prints for it.
\<close>

datatype opt_value =
    ProviderOpt ProviderOption
  | CachingOpt CachingProviderOption
  | OtherValue string

text \<open>
  How a constructor panics: \<open>panic(msg)\<close> of line 140, or the call of a nil option.
\<close>

datatype panic = PanicMessage string | NilDereference

text \<open>The type switch of lines 133 to 142; \<open>Inl\<close> is the panic of line 140.\<close>

fun sort_opts ::
  "opt_value list \<Rightarrow> ProviderOption list \<Rightarrow> CachingProviderOption list \<Rightarrow>
   panic + (ProviderOption list \<times> CachingProviderOption list)" where
  "sort_opts [] providerOpts cachingOpts = Inr (providerOpts, cachingOpts)"
| "sort_opts (ProviderOpt f # opts) providerOpts cachingOpts =
     sort_opts opts (providerOpts @ [f]) cachingOpts"
| "sort_opts (CachingOpt f # opts) providerOpts cachingOpts =
     sort_opts opts providerOpts (cachingOpts @ [f])"
| "sort_opts (OtherValue t # opts) providerOpts cachingOpts =
     Inl (PanicMessage (''invalid option type: '' @ t))"

definition NewCachingProvider ::
  "url option \<Rightarrow> int \<Rightarrow> opt_value list \<Rightarrow> panic + CachingProvider" where
  "NewCachingProvider issuerURL cacheTTL opts =
     (let ttl = (if cacheTTL = 0 then 1 * 60000000000 else cacheTTL) in
      case sort_opts opts [] [] of
        Inl p \<Rightarrow> Inl p
      | Inr (providerOpts, cachingOpts) \<Rightarrow>
          (case NewProvider issuerURL providerOpts of
             None \<Rightarrow> Inl NilDereference
           | Some p \<Rightarrow>
               (case apply_opts cachingOpts
                       \<lparr>provider = p,
                        CacheTTL = ttl,
                        cache = Map.empty,
                        sem = NewWeighted 1,
                        synchronousRefresh = False\<rparr> of
                  None \<Rightarrow> Inl NilDereference
                | Some cp \<Rightarrow> Inr cp)))"

definition WithSynchronousRefresh :: "bool \<Rightarrow> CachingProviderOption" where
  "WithSynchronousRefresh blocking = Some (\<lambda>cp. cp\<lparr>synchronousRefresh := blocking\<rparr>)"

text \<open>
  \<open>refreshKey\<close>, lines 206 to 221. The Key Fetcher is invoked once, which takes
  \<open>elapsed E\<close> on the clock; \<open>time.Now()\<close> of line 217 is read after it.
\<close>

definition refreshKey ::
  "env \<Rightarrow> ctx \<Rightarrow> string \<Rightarrow> CachingProvider \<Rightarrow> world \<Rightarrow> outcome \<times> CachingProvider \<times> world" where
  "refreshKey E c issuer cp w =
     (let w' = w\<lparr>now := now w + int (elapsed E), fetches := fetches w @ [c]\<rparr> in
      case snd (Provider_KeyFunc E c (provider cp)) of
        Failure e \<Rightarrow> (Failure e, cp, w')
      | Panic \<Rightarrow> (Panic, cp, w')
      | KeySet k \<Rightarrow>
          (KeySet k,
           cp\<lparr>cache := (cache cp)(issuer \<mapsto> \<lparr>jwks = k, expiresAt = now w' + CacheTTL cp\<rparr>)\<rparr>,
           w'))"

text \<open>
  The goroutine of lines 169 to 180, run to its end: the refresh on a background
  context with a timeout of 15 seconds, the eviction when it failed, and the deferred
  \<open>Release\<close>. The flag is True when the goroutine panics, which ends the process.
\<close>

definition refresh_goroutine ::
  "env \<Rightarrow> string \<Rightarrow> CachingProvider \<Rightarrow> world \<Rightarrow> bool \<times> CachingProvider \<times> world" where
  "refresh_goroutine E issuer cp w =
     (case refreshKey E (WithTimeout Background (15 * 1000000000)) issuer cp w of
        (r, cp1, w1) \<Rightarrow>
          (let cp2 = (case r of
                        Failure e \<Rightarrow> cp1\<lparr>cache := (cache cp1)(issuer := None)\<rparr>
                      | _ \<Rightarrow> cp1)
           in case Release 1 (sem cp2) of
                (panicked, s) \<Rightarrow> (r = Panic \<or> panicked, cp2\<lparr>sem := s\<rparr>, w1)))"

text \<open>
  \<open>CachingProvider.KeyFunc\<close>, lines 161 to 195, for a caller that runs alone. The
  second component is the goroutine the call started, by the issuer it refreshes:
  the call returns before that goroutine has done anything.
\<close>

definition KeyFunc ::
  "env \<Rightarrow> ctx \<Rightarrow> CachingProvider \<Rightarrow> world \<Rightarrow> outcome \<times> string option \<times> CachingProvider \<times> world" where
  "KeyFunc E c cp w =
     (case IssuerURL (provider cp) of
        None \<Rightarrow> (Panic, None, cp, w)
      | Some u \<Rightarrow>
          (let issuer = url_Hostname u in
           case cache cp issuer of
             Some cached \<Rightarrow>
               (if expiresAt cached < now w \<and> fst (TryAcquire 1 (sem cp)) then
                  (let cp1 = cp\<lparr>sem := snd (TryAcquire 1 (sem cp))\<rparr> in
                   if \<not> synchronousRefresh cp then (KeySet (jwks cached), Some issuer, cp1, w)
                   else
                     (case refreshKey E c issuer cp1 w of
                        (r, cp2, w2) \<Rightarrow>
                          (case Release 1 (sem cp2) of
                             (panicked, s) \<Rightarrow>
                               (if panicked then Panic else r, None, cp2\<lparr>sem := s\<rparr>, w2))))
                else (KeySet (jwks cached), None, cp, w))
           | None \<Rightarrow>
               (case refreshKey E c issuer cp w of (r, cp2, w2) \<Rightarrow> (r, None, cp2, w2))))"

section \<open>Concurrent callers\<close>

text \<open>
  \<open>sync.RWMutex\<close>: the number of goroutines that hold the read lock, and whether one
  holds the write lock. \<open>RLock\<close> waits while the write lock is held, \<open>Lock\<close> waits while
  any lock is held.
\<close>

record RWMutex =
  readers :: nat
  writer :: bool

text \<open>
  The three calls of \<open>refreshKey\<close>: line 194 (no entry), line 186 (synchronous refresh
  of an expired entry) and line 173 (the goroutine).
\<close>

datatype origin = FromMiss | FromSync | FromGoroutine

text \<open>
  Where a goroutine stands. A caller of \<open>KeyFunc\<close>: \<open>Called\<close> before \<open>RLock\<close> (line 162),
  \<open>Looking\<close> with the read lock held (lines 164 to 193), \<open>Returned\<close> after its return.
  In \<open>refreshKey\<close>: \<open>Refresh\<close> waiting for \<open>Lock\<close> (line 207), \<open>Fetching\<close> with the write
  lock held (lines 210 to 220). The goroutine of line 169 after a failed refresh:
  \<open>Evict\<close> (lines 176 to 178). \<open>Releasing\<close>: the deferred \<open>sem.Release(1)\<close> is next.
\<close>

datatype pc =
    Called ctx
  | Looking ctx
  | Refresh origin ctx string
  | Fetching origin ctx string
  | Evict string err
  | Releasing origin outcome
  | Returned outcome
  | Ended

text \<open>
  The provider with its lock, the outside, and the goroutines by their index.
  \<open>dead\<close>: a goroutine of line 169 panicked, which ends the process.
\<close>

record system =
  cprov :: CachingProvider
  mu :: RWMutex
  wld :: world
  threads :: "pc list"
  dead :: bool

text \<open>
  One atomic step: a new caller arrives, the clock advances, or goroutine \<open>i\<close> takes
  its next step. \<open>DoFetch i E\<close> completes the Key Fetcher invocation of goroutine \<open>i\<close>
  with the collaborators answering as \<open>E\<close>.
\<close>

datatype label =
    Arrive ctx
  | Tick nat
  | DoRLock nat
  | DoLook nat
  | DoLock nat
  | DoFetch nat env
  | DoEvict nat
  | DoRelease nat

text \<open>
  The steps are the sections between the operations on \<open>mu\<close> and \<open>sem\<close>. Between
  \<open>RLock\<close> and \<open>RUnlock\<close> no goroutine writes the cache and \<open>TryAcquire\<close> is atomic, so
  the section acts at one instant; between \<open>Lock\<close> and \<open>Unlock\<close> no other goroutine
  reads or writes the cache. \<open>RLock\<close> does not wait for a goroutine that waits for
  \<open>Lock\<close>: the runs of the model include those of the code.
\<close>

definition at :: "system \<Rightarrow> nat \<Rightarrow> pc option" where
  "at s i = (if i < length (threads s) then Some (threads s ! i) else None)"

definition goto :: "nat \<Rightarrow> pc \<Rightarrow> system \<Rightarrow> system" where
  "goto i p s = s\<lparr>threads := (threads s)[i := p]\<rparr>"

definition RUnlock :: "system \<Rightarrow> system" where
  "RUnlock s = s\<lparr>mu := (mu s)\<lparr>readers := readers (mu s) - 1\<rparr>\<rparr>"

definition rlock :: "nat \<Rightarrow> system \<Rightarrow> system option" where
  "rlock i s =
     (case at s i of
        Some (Called c) \<Rightarrow>
          if writer (mu s) then None
          else Some (goto i (Looking c) (s\<lparr>mu := (mu s)\<lparr>readers := readers (mu s) + 1\<rparr>\<rparr>))
      | _ \<Rightarrow> None)"

text \<open>
  Lines 164 to 193 under the read lock, up to and including \<open>RUnlock\<close>. The panic of
  line 164 leaves the read lock held: no \<open>RUnlock\<close> is deferred.
\<close>

definition look :: "nat \<Rightarrow> system \<Rightarrow> system option" where
  "look i s =
     (case at s i of
        Some (Looking c) \<Rightarrow>
          (case IssuerURL (provider (cprov s)) of
             None \<Rightarrow> Some (goto i (Returned Panic) s)
           | Some u \<Rightarrow>
               (let issuer = url_Hostname u in
                case cache (cprov s) issuer of
                  Some cached \<Rightarrow>
                    (if expiresAt cached < now (wld s) \<and> fst (TryAcquire 1 (sem (cprov s))) then
                       (let s1 = s\<lparr>cprov := (cprov s)\<lparr>sem := snd (TryAcquire 1 (sem (cprov s)))\<rparr>\<rparr> in
                        if \<not> synchronousRefresh (cprov s) then
                          Some (RUnlock (goto i (Returned (KeySet (jwks cached)))
                            (s1\<lparr>threads := threads s1 @
                                   [Refresh FromGoroutine (WithTimeout Background (15 * 1000000000)) issuer]\<rparr>)))
                        else Some (goto i (Refresh FromSync c issuer) (RUnlock s1)))
                     else Some (goto i (Returned (KeySet (jwks cached))) (RUnlock s)))
                | None \<Rightarrow> Some (goto i (Refresh FromMiss c issuer) (RUnlock s))))
      | _ \<Rightarrow> None)"

definition lock :: "nat \<Rightarrow> system \<Rightarrow> system option" where
  "lock i s =
     (case at s i of
        Some (Refresh k c issuer) \<Rightarrow>
          if writer (mu s) \<or> readers (mu s) \<noteq> 0 then None
          else Some (goto i (Fetching k c issuer) (s\<lparr>mu := (mu s)\<lparr>writer := True\<rparr>\<rparr>))
      | _ \<Rightarrow> None)"

text \<open>Lines 210 to 220 and the deferred \<open>Unlock\<close>, then where the caller of \<open>refreshKey\<close> goes on.\<close>

definition fetch :: "nat \<Rightarrow> env \<Rightarrow> system \<Rightarrow> system option" where
  "fetch i E s =
     (case at s i of
        Some (Fetching k c issuer) \<Rightarrow>
          (case refreshKey E c issuer (cprov s) (wld s) of
             (r, cp', w') \<Rightarrow>
               Some (goto i
                 (case k of
                    FromMiss \<Rightarrow> Returned r
                  | FromSync \<Rightarrow> Releasing FromSync r
                  | FromGoroutine \<Rightarrow>
                      (case r of Failure e \<Rightarrow> Evict issuer e | _ \<Rightarrow> Releasing FromGoroutine r))
                 (s\<lparr>cprov := cp', wld := w', mu := (mu s)\<lparr>writer := False\<rparr>\<rparr>)))
      | _ \<Rightarrow> None)"

definition evict :: "nat \<Rightarrow> system \<Rightarrow> system option" where
  "evict i s =
     (case at s i of
        Some (Evict issuer e) \<Rightarrow>
          if writer (mu s) \<or> readers (mu s) \<noteq> 0 then None
          else Some (goto i (Releasing FromGoroutine (Failure e))
                 (s\<lparr>cprov := (cprov s)\<lparr>cache := (cache (cprov s))(issuer := None)\<rparr>\<rparr>))
      | _ \<Rightarrow> None)"

definition release :: "nat \<Rightarrow> system \<Rightarrow> system option" where
  "release i s =
     (case at s i of
        Some (Releasing k r) \<Rightarrow>
          (case Release 1 (sem (cprov s)) of
             (panicked, sm) \<Rightarrow>
               (let s1 = s\<lparr>cprov := (cprov s)\<lparr>sem := sm\<rparr>\<rparr> in
                case k of
                  FromGoroutine \<Rightarrow> Some ((goto i Ended s1)\<lparr>dead := (r = Panic \<or> panicked)\<rparr>)
                | _ \<Rightarrow> Some (goto i (Returned (if panicked then Panic else r)) s1)))
      | _ \<Rightarrow> None)"

text \<open>A step that is not enabled (a lock that is held, a goroutine elsewhere) is \<open>None\<close>.\<close>

definition step :: "label \<Rightarrow> system \<Rightarrow> system option" where
  "step l s =
     (if dead s then None
      else case l of
             Arrive c \<Rightarrow> Some (s\<lparr>threads := threads s @ [Called c]\<rparr>)
           | Tick d \<Rightarrow> Some (s\<lparr>wld := (wld s)\<lparr>now := now (wld s) + int d\<rparr>\<rparr>)
           | DoRLock i \<Rightarrow> rlock i s
           | DoLook i \<Rightarrow> look i s
           | DoLock i \<Rightarrow> lock i s
           | DoFetch i E \<Rightarrow> fetch i E s
           | DoEvict i \<Rightarrow> evict i s
           | DoRelease i \<Rightarrow> release i s)"

fun run :: "label list \<Rightarrow> system \<Rightarrow> system option" where
  "run [] s = Some s"
| "run (l # ls) s = (case step l s of None \<Rightarrow> None | Some s' \<Rightarrow> run ls s')"

definition start :: "CachingProvider \<Rightarrow> world \<Rightarrow> system" where
  "start cp w =
     \<lparr>cprov = cp, mu = \<lparr>readers = 0, writer = False\<rparr>, wld = w, threads = [], dead = False\<rparr>"

text \<open>
  The steps of caller \<open>i\<close> from its call to its return, and of goroutine \<open>j\<close> of line 169
  from its start to its end, with no step of another goroutine in between.
\<close>

definition KeyFunc_steps :: "nat \<Rightarrow> env \<Rightarrow> system \<Rightarrow> system option" where
  "KeyFunc_steps i E s =
     (case run [DoRLock i, DoLook i] s of
        None \<Rightarrow> None
      | Some s1 \<Rightarrow>
          (case at s1 i of
             Some (Refresh k c issuer) \<Rightarrow>
               (case run [DoLock i, DoFetch i E] s1 of
                  None \<Rightarrow> None
                | Some s2 \<Rightarrow>
                    (case at s2 i of
                       Some (Releasing k' r) \<Rightarrow> step (DoRelease i) s2
                     | _ \<Rightarrow> Some s2))
           | _ \<Rightarrow> Some s1))"

definition goroutine_steps :: "nat \<Rightarrow> env \<Rightarrow> system \<Rightarrow> system option" where
  "goroutine_steps j E s =
     (case run [DoLock j, DoFetch j E] s of
        None \<Rightarrow> None
      | Some s1 \<Rightarrow>
          (case at s1 j of
             Some (Evict issuer e) \<Rightarrow> run [DoEvict j, DoRelease j] s1
           | _ \<Rightarrow> step (DoRelease j) s1))"

text \<open>
  \<open>fetching\<close>: inside the critical section of \<open>refreshKey\<close>. \<open>refreshing\<close>: a refresh has
  begun and not finished. \<open>holds_gate\<close>: between a successful \<open>TryAcquire\<close> and the
  \<open>Release\<close>.
\<close>

definition fetching :: "pc \<Rightarrow> bool" where
  "fetching p = (case p of Fetching _ _ _ \<Rightarrow> True | _ \<Rightarrow> False)"

definition refreshing :: "pc \<Rightarrow> bool" where
  "refreshing p = (case p of Refresh _ _ _ \<Rightarrow> True | Fetching _ _ _ \<Rightarrow> True | _ \<Rightarrow> False)"

definition holds_gate :: "pc \<Rightarrow> bool" where
  "holds_gate p =
     (case p of
        Refresh k _ _ \<Rightarrow> k \<noteq> FromMiss
      | Fetching k _ _ \<Rightarrow> k \<noteq> FromMiss
      | Evict _ _ \<Rightarrow> True
      | Releasing _ _ \<Rightarrow> True
      | _ \<Rightarrow> False)"

definition number :: "(pc \<Rightarrow> bool) \<Rightarrow> pc list \<Rightarrow> nat" where
  "number P ps = length (filter P ps)"

definition inv :: "system \<Rightarrow> bool" where
  "inv s =
     (sem_size (sem (cprov s)) = 1 \<and> sem_cur (sem (cprov s)) \<le> 1 \<and>
      number holds_gate (threads s) = sem_cur (sem (cprov s)) \<and>
      number fetching (threads s) = (if writer (mu s) then 1 else 0))"

section \<open>Notions of the statements\<close>

text \<open>
  What is seen of a run: the goroutines, the permits held, the Key Fetcher invocations.
\<close>

definition observe :: "system option \<Rightarrow> (pc list \<times> nat \<times> ctx list) option" where
  "observe r = map_option (\<lambda>s. (threads s, sem_cur (sem (cprov s)), fetches (wld s))) r"






text \<open>
  The kinds of failure of one \<open>Provider.KeyFunc\<close> invocation: discovery (line 67), the
  discovered URI does not parse (line 72), the request cannot be built (line 78), the
  transport (line 83), the body does not decode (line 90).
\<close>

datatype failure_kind =
    DiscoveryFailure
  | EndpointFailure
  | RequestFailure
  | TransportFailure
  | DecodeFailure

text \<open>
  The kind an error tells by its outermost context: the three messages of
  \<open>Provider.KeyFunc\<close>, the \<open>*url.Error\<close> of the HTTP client, and any other wrapping
  message, which is then the discovery's. A bare error tells none.
\<close>

fun kind_of :: "err \<Rightarrow> failure_kind option" where
  "kind_of (Err s) = None"
| "kind_of (URLError op u e) = Some TransportFailure"
| "kind_of (Errorf f e) =
     (if f = ''could not parse JWKS URI from well known endpoints: %w'' then Some EndpointFailure
      else if f = ''could not build request to get JWKS: %w'' then Some RequestFailure
      else if f = ''could not decode jwks: %w'' then Some DecodeFailure
      else Some DiscoveryFailure)"

text \<open>
  Modelled from the spec: the discovery collaborator
  (\<open>oidc.GetWellKnownEndpointsFromIssuerURL\<close>, in internal/oidc) is not among the
  sources. Section 7 of the spec has its failure as a wrapped error that carries the
  name of its operation: here, an error wrapped in a message of the discovery's own,
  none of the three of \<open>Provider.KeyFunc\<close>. The HTTP client is net/http's, whose \<open>Do\<close>
  returns every error as a \<open>*url.Error\<close>.
\<close>

definition collaborators_wrap :: "env \<Rightarrow> bool" where
  "collaborators_wrap E =
     ((\<forall>c cl u e. GetWellKnownEndpointsFromIssuerURL E c cl u = Inl e \<longrightarrow>
         kind_of e = Some DiscoveryFailure) \<and>
      (\<forall>cl req e. Client_Do E cl req = Inl e \<longrightarrow> (\<exists>op u e'. e = URLError op u e')))"

section \<open>Sample inputs\<close>

definition idp :: url where
  "idp = \<lparr>url_String = ''https://idp.example.com/'', url_Hostname = ''idp.example.com''\<rparr>"

definition jwks_uri :: url where
  "jwks_uri = \<lparr>url_String = ''https://idp.example.com/jwks'', url_Hostname = ''idp.example.com''\<rparr>"

definition keys_A :: JSONWebKeySet where
  "keys_A = JSONWebKeySet [JSONWebKey ''a1'' ''RS256'']"

definition keys_B :: JSONWebKeySet where
  "keys_B = JSONWebKeySet [JSONWebKey ''b1'' ''RS256'', JSONWebKey ''b2'' ''ES256'']"

text \<open>
  A decoder for the sample bodies. An empty JSON object decodes to the empty key set:
  encoding/json leaves a field that has no member in the document at its zero value.
\<close>

definition decode_sample :: "string \<Rightarrow> err + JSONWebKeySet" where
  "decode_sample body =
     (if body = ''{}'' then Inr (JSONWebKeySet [])
      else if body = ''{keys:[a1]}'' then Inr keys_A
      else if body = ''{keys:[b1,b2]}'' then Inr keys_B
      else Inl (Err ''invalid character''))"

text \<open>
  A network where discovery answers \<open>disc\<close> and every request is answered \<open>resp\<close>,
  after \<open>d\<close> nanoseconds.
\<close>

definition network :: "err + WellKnownEndpoints \<Rightarrow> err + Response \<Rightarrow> nat \<Rightarrow> env" where
  "network disc resp d =
     \<lparr>GetWellKnownEndpointsFromIssuerURL = (\<lambda>c cl u. disc),
      url_Parse = (\<lambda>s. if s = [] then Inl (Err ''empty url'')
                        else Inr \<lparr>url_String = s, url_Hostname = ''idp.example.com''\<rparr>),
      NewRequestWithContext = (\<lambda>c m u. Inr \<lparr>Request_ctx = c, Method = m, URL = u\<rparr>),
      Client_Do = (\<lambda>cl r. resp),
      Decode = decode_sample,
      elapsed = d\<rparr>"

definition serving :: "nat \<Rightarrow> string \<Rightarrow> nat \<Rightarrow> env" where
  "serving status body d =
     network (Inr \<lparr>JWKSURI = ''https://idp.example.com/jwks''\<rparr>)
       (Inr \<lparr>StatusCode = status, Body = body\<rparr>) d"

definition unreachable :: "nat \<Rightarrow> env" where
  "unreachable d = network (Inl (Err ''no such host'')) (Inl (Err ''no such host'')) d"

text \<open>
  A network that is down, with the errors as the collaborators wrap them: the
  discovery its own message around the client's \<open>*url.Error\<close>, the client a
  \<open>*url.Error\<close>.
\<close>

definition offline :: "nat \<Rightarrow> env" where
  "offline d =
     network
       (Inl (Errorf ''could not get well known endpoints from url %s: %w''
               (URLError ''Get'' ''https://idp.example.com/.well-known/openid-configuration''
                  (Err ''no such host''))))
       (Inl (URLError ''Get'' ''https://idp.example.com/jwks'' (Err ''no such host''))) d"

text \<open>
  The providers that \<open>NewProvider\<close> makes for the issuer, with no option and with
  \<open>WithCustomJWKSURI\<close>.
\<close>

definition p_discover :: Provider where
  "p_discover = \<lparr>IssuerURL = Some idp, CustomJWKSURI = None, Client = DefaultClient\<rparr>"

definition p_custom :: Provider where
  "p_custom = \<lparr>IssuerURL = Some idp, CustomJWKSURI = Some jwks_uri, Client = DefaultClient\<rparr>"

text \<open>A provider as \<open>NewCachingProvider\<close> leaves it, with a TTL of 100 nanoseconds.\<close>

definition cp_empty :: "bool \<Rightarrow> CachingProvider" where
  "cp_empty blocking =
     \<lparr>provider = p_custom, CacheTTL = 100, cache = Map.empty, sem = NewWeighted 1,
      synchronousRefresh = blocking\<rparr>"

text \<open>The same provider holding \<open>keys_A\<close> for the issuer until \<open>t\<close>.\<close>

definition cp_holding :: "bool \<Rightarrow> int \<Rightarrow> CachingProvider" where
  "cp_holding blocking t =
     (cp_empty blocking)\<lparr>cache := [''idp.example.com'' \<mapsto> \<lparr>jwks = keys_A, expiresAt = t\<rparr>]\<rparr>"


definition at_time :: "int \<Rightarrow> world" where
  "at_time t = \<lparr>now = t, fetches = []\<rparr>"

lemmas sample_defs = idp_def jwks_uri_def keys_A_def keys_B_def decode_sample_def network_def
  serving_def unreachable_def p_custom_def
  cp_empty_def cp_holding_def at_time_def NewWeighted_def

lemmas fetch_defs = Provider_KeyFunc_def resolve_jwksURI_def get_jwks_def

section \<open>The Key Fetcher: endpoint and errors\<close>

text \<open>
  C8. With a custom JWKS URI no discovery call is made and every call that leaves the
  process is the request built from that URI. Without one, the first call is the
  discovery against the issuer URL, what follows is the fetch from the endpoint it gave,
  and a discovery failure is returned as the error with no request sent.
\<close>

theorem Provider_KeyFunc_endpoint:
  "(\<forall>u. CustomJWKSURI p = Some u \<longrightarrow>
      Provider_KeyFunc E c p = get_jwks E c p u \<and>
      \<not> (\<exists>ev \<in> set (fst (Provider_KeyFunc E c p)). is_Discovery ev) \<and>
      (\<forall>ev \<in> set (fst (Provider_KeyFunc E c p)).
         \<exists>req. NewRequestWithContext E c ''GET'' (url_String u) = Inr req \<and>
               ev = HTTPDo (Client p) req)) \<and>
   (\<forall>i. CustomJWKSURI p = None \<and> IssuerURL p = Some i \<longrightarrow>
      (\<exists>evs. fst (Provider_KeyFunc E c p) = Discovery c (Client p) i # evs \<and>
             (\<forall>ev \<in> set evs. is_HTTPDo ev)) \<and>
      (\<forall>e. GetWellKnownEndpointsFromIssuerURL E c (Client p) i = Inl e \<longrightarrow>
             Provider_KeyFunc E c p = ([Discovery c (Client p) i], Failure e)) \<and>
      (\<forall>wk j. GetWellKnownEndpointsFromIssuerURL E c (Client p) i = Inr wk \<and>
               url_Parse E (JWKSURI wk) = Inr j \<longrightarrow>
             Provider_KeyFunc E c p =
               (Discovery c (Client p) i # fst (get_jwks E c p j), snd (get_jwks E c p j))))"
  by (auto simp: fetch_defs is_Discovery_def is_HTTPDo_def
           split: option.splits sum.splits prod.splits)

theorem Provider_KeyFunc_endpoint_witness:
  "Provider_KeyFunc (serving 200 ''{keys:[a1]}'' 40) (Caller ''r1'') p_custom =
     ([HTTPDo DefaultClient
        \<lparr>Request_ctx = Caller ''r1'', Method = ''GET'', URL = ''https://idp.example.com/jwks''\<rparr>],
      KeySet keys_A) \<and>
   Provider_KeyFunc (unreachable 40) (Caller ''r1'') p_discover =
     ([Discovery (Caller ''r1'') DefaultClient idp], Failure (Err ''no such host''))"
proof -
  let ?c = "Caller ''r1''"
  have custom: "CustomJWKSURI p_custom = Some jwks_uri"
    by (simp add: sample_defs p_discover_def)
  have "Provider_KeyFunc (serving 200 ''{keys:[a1]}'' 40) ?c p_custom =
        get_jwks (serving 200 ''{keys:[a1]}'' 40) ?c p_custom jwks_uri"
    using Provider_KeyFunc_endpoint[of p_custom "serving 200 ''{keys:[a1]}'' 40" ?c] custom
    by blast
  then have a: "Provider_KeyFunc (serving 200 ''{keys:[a1]}'' 40) ?c p_custom =
     ([HTTPDo DefaultClient
        \<lparr>Request_ctx = ?c, Method = ''GET'', URL = ''https://idp.example.com/jwks''\<rparr>],
      KeySet keys_A)"
    by (simp add: get_jwks_def sample_defs p_discover_def)
  have disc: "CustomJWKSURI p_discover = None \<and> IssuerURL p_discover = Some idp"
    by (simp add: sample_defs p_discover_def)
  have fails: "GetWellKnownEndpointsFromIssuerURL (unreachable 40) ?c (Client p_discover) idp =
               Inl (Err ''no such host'')"
    by (simp add: sample_defs p_discover_def)
  have "Provider_KeyFunc (unreachable 40) ?c p_discover =
        ([Discovery ?c (Client p_discover) idp], Failure (Err ''no such host''))"
    using Provider_KeyFunc_endpoint[of p_discover "unreachable 40" ?c] disc fails
    by blast
  then have b: "Provider_KeyFunc (unreachable 40) ?c p_discover =
        ([Discovery ?c DefaultClient idp], Failure (Err ''no such host''))"
    by (simp add: p_discover_def)
  from a b show ?thesis by simp
qed

text \<open>
  C1, as the code has it. With collaborators that wrap their errors, each of the
  failures of an invocation (discovery, a discovered URI that does not parse, a request
  that cannot be built, the transport, a body that does not decode) is returned as
  \<open>(nil, err)\<close>, and the error returned tells its kind by its outermost context: the
  errors of discovery and of the transport are returned as they are, with the context
  their collaborator gave them, and the other three are wrapped in a message of
  \<open>Provider.KeyFunc\<close> that names the operation. Every error returned tells a kind; a
  \<open>Failure\<close> carries no key set. The status code of the response is not read: a body
  that decodes gives the key set.
\<close>

theorem Provider_KeyFunc_failures:
  "collaborators_wrap E \<longrightarrow>
   (\<forall>i e. CustomJWKSURI p = None \<and> IssuerURL p = Some i \<and>
          GetWellKnownEndpointsFromIssuerURL E c (Client p) i = Inl e \<longrightarrow>
      snd (Provider_KeyFunc E c p) = Failure e \<and> kind_of e = Some DiscoveryFailure) \<and>
   (\<forall>i wk e. CustomJWKSURI p = None \<and> IssuerURL p = Some i \<and>
          GetWellKnownEndpointsFromIssuerURL E c (Client p) i = Inr wk \<and>
          url_Parse E (JWKSURI wk) = Inl e \<longrightarrow>
      (\<exists>e'. snd (Provider_KeyFunc E c p) = Failure e' \<and>
            e' = Errorf ''could not parse JWKS URI from well known endpoints: %w'' e \<and>
            kind_of e' = Some EndpointFailure)) \<and>
   (\<forall>j. snd (resolve_jwksURI E c p) = Inr j \<longrightarrow>
      (\<forall>e. NewRequestWithContext E c ''GET'' (url_String j) = Inl e \<longrightarrow>
         (\<exists>e'. snd (Provider_KeyFunc E c p) = Failure e' \<and>
               e' = Errorf ''could not build request to get JWKS: %w'' e \<and>
               kind_of e' = Some RequestFailure)) \<and>
      (\<forall>req. NewRequestWithContext E c ''GET'' (url_String j) = Inr req \<longrightarrow>
         (\<forall>e. Client_Do E (Client p) req = Inl e \<longrightarrow>
            snd (Provider_KeyFunc E c p) = Failure e \<and> kind_of e = Some TransportFailure) \<and>
         (\<forall>resp. Client_Do E (Client p) req = Inr resp \<longrightarrow>
            (\<forall>e. Decode E (Body resp) = Inl e \<longrightarrow>
               (\<exists>e'. snd (Provider_KeyFunc E c p) = Failure e' \<and>
                     e' = Errorf ''could not decode jwks: %w'' e \<and>
                     kind_of e' = Some DecodeFailure)) \<and>
            (\<forall>k. Decode E (Body resp) = Inr k \<longrightarrow>
               snd (Provider_KeyFunc E c p) = KeySet k)))) \<and>
   (\<forall>e. snd (Provider_KeyFunc E c p) = Failure e \<longrightarrow>
      kind_of e \<noteq> None \<and> (\<forall>k. snd (Provider_KeyFunc E c p) \<noteq> KeySet k))"
proof
  assume w: "collaborators_wrap E"
  have disc: "kind_of e = Some DiscoveryFailure"
    if "GetWellKnownEndpointsFromIssuerURL E c cl u = Inl e" for cl u e
    using w that unfolding collaborators_wrap_def by blast
  have tran: "kind_of e = Some TransportFailure" if "Client_Do E cl req = Inl e" for cl req e
  proof -
    from w that obtain op u e' where "e = URLError op u e'"
      unfolding collaborators_wrap_def by blast
    then show ?thesis by simp
  qed
  show "(\<forall>i e. CustomJWKSURI p = None \<and> IssuerURL p = Some i \<and>
          GetWellKnownEndpointsFromIssuerURL E c (Client p) i = Inl e \<longrightarrow>
      snd (Provider_KeyFunc E c p) = Failure e \<and> kind_of e = Some DiscoveryFailure) \<and>
   (\<forall>i wk e. CustomJWKSURI p = None \<and> IssuerURL p = Some i \<and>
          GetWellKnownEndpointsFromIssuerURL E c (Client p) i = Inr wk \<and>
          url_Parse E (JWKSURI wk) = Inl e \<longrightarrow>
      (\<exists>e'. snd (Provider_KeyFunc E c p) = Failure e' \<and>
            e' = Errorf ''could not parse JWKS URI from well known endpoints: %w'' e \<and>
            kind_of e' = Some EndpointFailure)) \<and>
   (\<forall>j. snd (resolve_jwksURI E c p) = Inr j \<longrightarrow>
      (\<forall>e. NewRequestWithContext E c ''GET'' (url_String j) = Inl e \<longrightarrow>
         (\<exists>e'. snd (Provider_KeyFunc E c p) = Failure e' \<and>
               e' = Errorf ''could not build request to get JWKS: %w'' e \<and>
               kind_of e' = Some RequestFailure)) \<and>
      (\<forall>req. NewRequestWithContext E c ''GET'' (url_String j) = Inr req \<longrightarrow>
         (\<forall>e. Client_Do E (Client p) req = Inl e \<longrightarrow>
            snd (Provider_KeyFunc E c p) = Failure e \<and> kind_of e = Some TransportFailure) \<and>
         (\<forall>resp. Client_Do E (Client p) req = Inr resp \<longrightarrow>
            (\<forall>e. Decode E (Body resp) = Inl e \<longrightarrow>
               (\<exists>e'. snd (Provider_KeyFunc E c p) = Failure e' \<and>
                     e' = Errorf ''could not decode jwks: %w'' e \<and>
                     kind_of e' = Some DecodeFailure)) \<and>
            (\<forall>k. Decode E (Body resp) = Inr k \<longrightarrow>
               snd (Provider_KeyFunc E c p) = KeySet k)))) \<and>
   (\<forall>e. snd (Provider_KeyFunc E c p) = Failure e \<longrightarrow>
      kind_of e \<noteq> None \<and> (\<forall>k. snd (Provider_KeyFunc E c p) \<noteq> KeySet k))"
    by (auto simp: fetch_defs disc tran split: option.splits sum.splits prod.splits)
qed

theorem Provider_KeyFunc_failures_witness:
  "snd (Provider_KeyFunc (offline 0) (Caller ''r1'') p_discover) =
     Failure (Errorf ''could not get well known endpoints from url %s: %w''
               (URLError ''Get'' ''https://idp.example.com/.well-known/openid-configuration''
                  (Err ''no such host''))) \<and>
   kind_of (Errorf ''could not get well known endpoints from url %s: %w''
               (URLError ''Get'' ''https://idp.example.com/.well-known/openid-configuration''
                  (Err ''no such host''))) = Some DiscoveryFailure \<and>
   snd (Provider_KeyFunc (offline 0) (Caller ''r1'') p_custom) =
     Failure (URLError ''Get'' ''https://idp.example.com/jwks'' (Err ''no such host'')) \<and>
   kind_of (URLError ''Get'' ''https://idp.example.com/jwks'' (Err ''no such host'')) =
     Some TransportFailure \<and>
   snd (Provider_KeyFunc (serving 404 ''<html>'' 0) (Caller ''r1'') p_custom) =
     Failure (Errorf ''could not decode jwks: %w'' (Err ''invalid character'')) \<and>
   kind_of (Errorf ''could not decode jwks: %w'' (Err ''invalid character'')) =
     Some DecodeFailure"
proof -
  let ?c = "Caller ''r1''"
  let ?req = "\<lparr>Request_ctx = ?c, Method = ''GET'', URL = ''https://idp.example.com/jwks''\<rparr>"
  let ?de = "Errorf ''could not get well known endpoints from url %s: %w''
               (URLError ''Get'' ''https://idp.example.com/.well-known/openid-configuration''
                  (Err ''no such host''))"
  let ?te = "URLError ''Get'' ''https://idp.example.com/jwks'' (Err ''no such host'')"
  have w1: "collaborators_wrap (offline 0)"
    by (simp add: collaborators_wrap_def offline_def network_def)
  have w2: "collaborators_wrap (serving 404 ''<html>'' 0)"
    by (simp add: collaborators_wrap_def serving_def network_def)
  note f1 = Provider_KeyFunc_failures[where E = "offline 0" and c = ?c and p = p_discover,
              THEN mp, OF w1]
  have "CustomJWKSURI p_discover = None \<and> IssuerURL p_discover = Some idp \<and>
        GetWellKnownEndpointsFromIssuerURL (offline 0) ?c (Client p_discover) idp = Inl ?de"
    by (simp add: offline_def network_def p_discover_def)
  with f1 have a: "snd (Provider_KeyFunc (offline 0) ?c p_discover) = Failure ?de \<and>
                   kind_of ?de = Some DiscoveryFailure"
    by blast
  note f2 = Provider_KeyFunc_failures[where E = "offline 0" and c = ?c and p = p_custom,
              THEN mp, OF w1]
  have r1: "snd (resolve_jwksURI (offline 0) ?c p_custom) = Inr jwks_uri"
    and q1: "NewRequestWithContext (offline 0) ?c ''GET'' (url_String jwks_uri) = Inr ?req"
    and d1: "Client_Do (offline 0) (Client p_custom) ?req = Inl ?te"
    by (simp_all add: resolve_jwksURI_def offline_def network_def p_custom_def jwks_uri_def)
  with f2 have b: "snd (Provider_KeyFunc (offline 0) ?c p_custom) = Failure ?te \<and>
                   kind_of ?te = Some TransportFailure"
    by blast
  let ?E = "serving 404 ''<html>'' 0"
  note f3 = Provider_KeyFunc_failures[where E = ?E and c = ?c and p = p_custom, THEN mp, OF w2]
  have r2: "snd (resolve_jwksURI ?E ?c p_custom) = Inr jwks_uri"
    and q2: "NewRequestWithContext ?E ?c ''GET'' (url_String jwks_uri) = Inr ?req"
    and d2: "Client_Do ?E (Client p_custom) ?req = Inr \<lparr>StatusCode = 404, Body = ''<html>''\<rparr>"
    and e2: "Decode ?E (Body \<lparr>StatusCode = 404, Body = ''<html>''\<rparr>) = Inl (Err ''invalid character'')"
    by (simp_all add: resolve_jwksURI_def sample_defs)
  with f3 have "\<exists>e'. snd (Provider_KeyFunc ?E ?c p_custom) = Failure e' \<and>
                  e' = Errorf ''could not decode jwks: %w'' (Err ''invalid character'') \<and>
                  kind_of e' = Some DecodeFailure"
    by blast
  then have c: "snd (Provider_KeyFunc ?E ?c p_custom) =
                  Failure (Errorf ''could not decode jwks: %w'' (Err ''invalid character'')) \<and>
                kind_of (Errorf ''could not decode jwks: %w'' (Err ''invalid character'')) =
                  Some DecodeFailure"
    by blast
  from a b c show ?thesis by blast
qed

text \<open>
  C1 as stated fails for the non-success status: the issuer answers 500 with an empty
  JSON object, and \<open>Provider.KeyFunc\<close> returns the empty key set and a nil error.
\<close>

theorem Provider_KeyFunc_status_counterexample:
  "Client_Do (serving 500 ''{}'' 0) (Client p_custom)
      \<lparr>Request_ctx = Caller ''r1'', Method = ''GET'', URL = ''https://idp.example.com/jwks''\<rparr>
     = Inr \<lparr>StatusCode = 500, Body = ''{}''\<rparr> \<and>
   Provider_KeyFunc (serving 500 ''{}'' 0) (Caller ''r1'') p_custom =
     ([HTTPDo DefaultClient
        \<lparr>Request_ctx = Caller ''r1'', Method = ''GET'', URL = ''https://idp.example.com/jwks''\<rparr>],
      KeySet (JSONWebKeySet []))"
  by (simp add: sample_defs fetch_defs)

section \<open>The Caching Layer: a caller that runs alone\<close>

text \<open>
  C6. \<open>refreshKey\<close> invokes the Key Fetcher once. On success it stores a whole new entry
  for the issuer, with \<open>expiresAt\<close> the time read after the fetch plus the TTL, changes
  nothing else and returns the key set. On failure it returns the error and the
  provider, with its cache, is as it was.
\<close>

theorem refreshKey_result:
  "(\<forall>k. snd (Provider_KeyFunc E c (provider cp)) = KeySet k \<longrightarrow>
      refreshKey E c issuer cp w =
        (KeySet k,
         cp\<lparr>cache := (cache cp)(issuer \<mapsto>
               \<lparr>jwks = k, expiresAt = (now w + int (elapsed E)) + CacheTTL cp\<rparr>)\<rparr>,
         w\<lparr>now := now w + int (elapsed E), fetches := fetches w @ [c]\<rparr>)) \<and>
   (\<forall>e. snd (Provider_KeyFunc E c (provider cp)) = Failure e \<longrightarrow>
      refreshKey E c issuer cp w =
        (Failure e, cp, w\<lparr>now := now w + int (elapsed E), fetches := fetches w @ [c]\<rparr>))"
  by (simp add: refreshKey_def Let_def)

theorem refreshKey_result_witness:
  "refreshKey (serving 200 ''{keys:[b1,b2]}'' 40) (Caller ''r1'') ''idp.example.com''
     (cp_holding False 1000) (at_time 2000) =
     (KeySet keys_B,
      (cp_holding False 1000)\<lparr>cache := (cache (cp_holding False 1000))(''idp.example.com'' \<mapsto>
         \<lparr>jwks = keys_B, expiresAt = 2140\<rparr>)\<rparr>,
      \<lparr>now = 2040, fetches = [Caller ''r1'']\<rparr>) \<and>
   refreshKey (unreachable 40) (Caller ''r1'') ''idp.example.com''
     (cp_holding False 1000) (at_time 2000) =
     (Failure (Err ''no such host''), cp_holding False 1000,
      \<lparr>now = 2040, fetches = [Caller ''r1'']\<rparr>)"
proof -
  let ?c = "Caller ''r1''"
  have ok: "snd (Provider_KeyFunc (serving 200 ''{keys:[b1,b2]}'' 40) ?c
                  (provider (cp_holding False 1000))) = KeySet keys_B"
    by (simp add: fetch_defs sample_defs)
  have ko: "snd (Provider_KeyFunc (unreachable 40) ?c (provider (cp_holding False 1000))) =
            Failure (Err ''no such host'')"
    by (simp add: fetch_defs sample_defs)
  have el: "elapsed (serving 200 ''{keys:[b1,b2]}'' 40) = 40" "elapsed (unreachable 40) = 40"
           "CacheTTL (cp_holding False 1000) = 100"
           "now (at_time 2000) = 2000" "fetches (at_time 2000) = []"
    by (simp_all add: sample_defs)
  have a: "refreshKey (serving 200 ''{keys:[b1,b2]}'' 40) ?c ''idp.example.com''
             (cp_holding False 1000) (at_time 2000) =
           (KeySet keys_B,
            (cp_holding False 1000)\<lparr>cache := (cache (cp_holding False 1000))(''idp.example.com'' \<mapsto>
               \<lparr>jwks = keys_B, expiresAt = 2140\<rparr>)\<rparr>,
            \<lparr>now = 2040, fetches = [?c]\<rparr>)"
    using refreshKey_result[where E = "serving 200 ''{keys:[b1,b2]}'' 40" and c = ?c
            and cp = "cp_holding False 1000" and issuer = "''idp.example.com''"
            and w = "at_time 2000"] ok el
    by (simp add: at_time_def)
  have b: "refreshKey (unreachable 40) ?c ''idp.example.com''
             (cp_holding False 1000) (at_time 2000) =
           (Failure (Err ''no such host''), cp_holding False 1000, \<lparr>now = 2040, fetches = [?c]\<rparr>)"
    using refreshKey_result[where E = "unreachable 40" and c = ?c
            and cp = "cp_holding False 1000" and issuer = "''idp.example.com''"
            and w = "at_time 2000"] ko el
    by (simp add: at_time_def)
  from a b show ?thesis by simp
qed




text \<open>
  C3. With an entry that is still valid (\<open>now < expiresAt\<close>), \<open>KeyFunc\<close> returns the
  cached key set with a nil error; the provider and the outside are unchanged (no
  fetch, no permit taken) and no goroutine is started.
\<close>

theorem KeyFunc_valid:
  "IssuerURL (provider cp) = Some u \<and> cache cp (url_Hostname u) = Some cached \<and>
   now w < expiresAt cached \<longrightarrow>
     KeyFunc E c cp w = (KeySet (jwks cached), None, cp, w)"
  by (simp add: KeyFunc_def Let_def)

theorem KeyFunc_valid_witness:
  "KeyFunc (unreachable 40) (Caller ''r1'') (cp_holding False 1000) (at_time 999) =
     (KeySet keys_A, None, cp_holding False 1000, at_time 999)"
proof -
  have "IssuerURL (provider (cp_holding False 1000)) = Some idp \<and>
        cache (cp_holding False 1000) (url_Hostname idp) = Some \<lparr>jwks = keys_A, expiresAt = 1000\<rparr> \<and>
        now (at_time 999) < expiresAt \<lparr>jwks = keys_A, expiresAt = 1000\<rparr>"
    by (simp add: sample_defs)
  from KeyFunc_valid[rule_format, OF this] show ?thesis by simp
qed

text \<open>
  C10. The expiry test is \<open>time.Now().After(expiresAt)\<close>: at \<open>now = expiresAt\<close> the
  entry is not expired, and \<open>KeyFunc\<close> returns the cached key set with nothing else
  done.
\<close>

theorem KeyFunc_at_expiry:
  "IssuerURL (provider cp) = Some u \<and> cache cp (url_Hostname u) = Some cached \<and>
   now w = expiresAt cached \<longrightarrow>
     KeyFunc E c cp w = (KeySet (jwks cached), None, cp, w)"
  by (simp add: KeyFunc_def Let_def)

theorem KeyFunc_at_expiry_witness:
  "KeyFunc (unreachable 40) (Caller ''r1'') (cp_holding True 1000) (at_time 1000) =
     (KeySet keys_A, None, cp_holding True 1000, at_time 1000)"
proof -
  have "IssuerURL (provider (cp_holding True 1000)) = Some idp \<and>
        cache (cp_holding True 1000) (url_Hostname idp) = Some \<lparr>jwks = keys_A, expiresAt = 1000\<rparr> \<and>
        now (at_time 1000) = expiresAt \<lparr>jwks = keys_A, expiresAt = 1000\<rparr>"
    by (simp add: sample_defs)
  from KeyFunc_at_expiry[rule_format, OF this] show ?thesis by simp
qed

text \<open>
  C5. With an expired entry, synchronous refresh and the permit free, \<open>KeyFunc\<close>
  returns what \<open>refreshKey\<close> on the caller's context returns, which is the Key
  Fetcher's result of this call: the fetched key set, or the error. The permit is
  given back. When the fetch fails the result is the error, not the stale key set.
\<close>

theorem KeyFunc_sync_refresh:
  "IssuerURL (provider cp) = Some u \<and> cache cp (url_Hostname u) = Some cached \<and>
   expiresAt cached < now w \<and> synchronousRefresh cp \<and> fst (TryAcquire 1 (sem cp)) \<longrightarrow>
     (case KeyFunc E c cp w of
        (r, spawned, cp', w') \<Rightarrow>
          r = fst (refreshKey E c (url_Hostname u) cp w) \<and>
          r = snd (Provider_KeyFunc E c (provider cp)) \<and>
          fetches w' = fetches w @ [c] \<and> spawned = None \<and> sem cp' = sem cp \<and>
          cache cp' = cache (fst (snd (refreshKey E c (url_Hostname u) cp w))) \<and>
          (\<forall>e. snd (Provider_KeyFunc E c (provider cp)) = Failure e \<longrightarrow>
             r = Failure e \<and> r \<noteq> KeySet (jwks cached) \<and> cache cp' = cache cp))"
  by (auto simp: KeyFunc_def refreshKey_def Let_def TryAcquire_def Release_def
           split: outcome.splits if_splits)

theorem KeyFunc_sync_refresh_witness:
  "(case KeyFunc (serving 200 ''{keys:[b1,b2]}'' 40) (Caller ''r1'') (cp_holding True 1000) (at_time 2000) of
      (r, spawned, cp', w') \<Rightarrow> r = KeySet keys_B \<and> fetches w' = [Caller ''r1'']) \<and>
   (case KeyFunc (unreachable 40) (Caller ''r1'') (cp_holding True 1000) (at_time 2000) of
      (r, spawned, cp', w') \<Rightarrow> r = Failure (Err ''no such host'') \<and> fetches w' = [Caller ''r1''])"
proof -
  let ?c = "Caller ''r1''" and ?cp = "cp_holding True 1000"
  let ?cached = "\<lparr>jwks = keys_A, expiresAt = 1000\<rparr>"
  have h: "IssuerURL (provider ?cp) = Some idp \<and> cache ?cp (url_Hostname idp) = Some ?cached \<and>
           expiresAt ?cached < now (at_time 2000) \<and> synchronousRefresh ?cp \<and>
           fst (TryAcquire 1 (sem ?cp))"
    by (simp add: sample_defs TryAcquire_def)
  have ok: "snd (Provider_KeyFunc (serving 200 ''{keys:[b1,b2]}'' 40) ?c (provider ?cp)) = KeySet keys_B"
    by (simp add: fetch_defs sample_defs)
  have ko: "snd (Provider_KeyFunc (unreachable 40) ?c (provider ?cp)) = Failure (Err ''no such host'')"
    by (simp add: fetch_defs sample_defs)
  have f: "fetches (at_time 2000) = []"
    by (simp add: at_time_def)
  have a: "(case KeyFunc (serving 200 ''{keys:[b1,b2]}'' 40) ?c ?cp (at_time 2000) of
      (r, spawned, cp', w') \<Rightarrow> r = KeySet keys_B \<and> fetches w' = [?c])"
    using KeyFunc_sync_refresh[where cp = ?cp and u = idp and cached = ?cached
            and w = "at_time 2000" and E = "serving 200 ''{keys:[b1,b2]}'' 40" and c = ?c]
      h ok f
    by (auto split: prod.splits)
  have b: "(case KeyFunc (unreachable 40) ?c ?cp (at_time 2000) of
      (r, spawned, cp', w') \<Rightarrow> r = Failure (Err ''no such host'') \<and> fetches w' = [?c])"
    using KeyFunc_sync_refresh[where cp = ?cp and u = idp and cached = ?cached
            and w = "at_time 2000" and E = "unreachable 40" and c = ?c] h ko f
    by (auto split: prod.splits)
  from a b show ?thesis by simp
qed

text \<open>
  C4. With an expired entry, asynchronous refresh and the permit free, \<open>KeyFunc\<close>
  returns the stale key set with nothing fetched and no time passed, and has started
  the goroutine for the issuer. When the refresh of that goroutine fails, the goroutine
  ends with the entry deleted and the permit given back, and the next \<open>KeyFunc\<close> call
  finds no entry: it invokes the Key Fetcher once and returns its result.
\<close>

theorem KeyFunc_async_refresh:
  "IssuerURL (provider cp) = Some u \<and> cache cp (url_Hostname u) = Some cached \<and>
   expiresAt cached < now w \<and> \<not> synchronousRefresh cp \<and> fst (TryAcquire 1 (sem cp)) \<longrightarrow>
     (case KeyFunc E c cp w of
        (r, spawned, cp1, w1) \<Rightarrow>
          r = KeySet (jwks cached) \<and> spawned = Some (url_Hostname u) \<and> w1 = w \<and>
          cache cp1 = cache cp \<and>
          (\<forall>E' w2 e.
             snd (Provider_KeyFunc E' (WithTimeout Background (15 * 1000000000)) (provider cp)) =
               Failure e \<longrightarrow>
             (case refresh_goroutine E' (url_Hostname u) cp1 w2 of
                (crashed, cp3, w3) \<Rightarrow>
                  \<not> crashed \<and> cache cp3 = (cache cp)((url_Hostname u) := None) \<and>
                  sem cp3 = sem cp \<and>
                  fetches w3 = fetches w2 @ [WithTimeout Background (15 * 1000000000)] \<and>
                  (\<forall>E'' c' w4.
                     (case KeyFunc E'' c' cp3 w4 of
                        (r', spawned', cp5, w5) \<Rightarrow>
                          fetches w5 = fetches w4 @ [c'] \<and> spawned' = None \<and>
                          r' = snd (Provider_KeyFunc E'' c' (provider cp)))))))"
  by (auto simp: KeyFunc_def refreshKey_def refresh_goroutine_def Let_def TryAcquire_def Release_def
           split: outcome.splits if_splits prod.splits)

theorem KeyFunc_async_refresh_witness:
  "(case KeyFunc (unreachable 40) (Caller ''r1'') (cp_holding False 1000) (at_time 2000) of
      (r, spawned, cp1, w1) \<Rightarrow>
        r = KeySet keys_A \<and> spawned = Some ''idp.example.com'' \<and> w1 = at_time 2000 \<and>
        (case refresh_goroutine (unreachable 40) ''idp.example.com'' cp1 w1 of
           (crashed, cp3, w3) \<Rightarrow>
             cache cp3 ''idp.example.com'' = None \<and>
             (case KeyFunc (serving 200 ''{keys:[b1,b2]}'' 40) (Caller ''r2'') cp3 w3 of
                (r', spawned', cp5, w5) \<Rightarrow>
                  r' = KeySet keys_B \<and>
                  fetches w5 = [WithTimeout Background (15 * 1000000000), Caller ''r2''])))"
proof -
  let ?c = "Caller ''r1''" and ?cp = "cp_holding False 1000"
  let ?cached = "\<lparr>jwks = keys_A, expiresAt = 1000\<rparr>"
  let ?bg = "WithTimeout Background (15 * 1000000000)"
  have h: "IssuerURL (provider ?cp) = Some idp \<and> cache ?cp (url_Hostname idp) = Some ?cached \<and>
           expiresAt ?cached < now (at_time 2000) \<and> \<not> synchronousRefresh ?cp \<and>
           fst (TryAcquire 1 (sem ?cp))"
    by (simp add: sample_defs TryAcquire_def)
  have ko: "snd (Provider_KeyFunc (unreachable 40) ?bg (provider ?cp)) = Failure (Err ''no such host'')"
    by (simp add: fetch_defs sample_defs)
  have ok: "snd (Provider_KeyFunc (serving 200 ''{keys:[b1,b2]}'' 40) (Caller ''r2'') (provider ?cp)) =
            KeySet keys_B"
    by (simp add: fetch_defs sample_defs)
  have f: "fetches (at_time 2000) = []" "url_Hostname idp = ''idp.example.com''"
    by (simp_all add: sample_defs)
  obtain r spawned cp1 w1 where
    k1: "KeyFunc (unreachable 40) ?c ?cp (at_time 2000) = (r, spawned, cp1, w1)"
    using prod_cases4 by blast
  from KeyFunc_async_refresh[where cp = ?cp and u = idp and cached = ?cached
         and w = "at_time 2000" and E = "unreachable 40" and c = ?c] h k1
  have s1: "r = KeySet keys_A" "spawned = Some ''idp.example.com''" "w1 = at_time 2000"
    and g1: "\<forall>E' w2 e.
             snd (Provider_KeyFunc E' ?bg (provider ?cp)) = Failure e \<longrightarrow>
             (case refresh_goroutine E' (url_Hostname idp) cp1 w2 of
                (crashed, cp3, w3) \<Rightarrow>
                  \<not> crashed \<and> cache cp3 = (cache ?cp)((url_Hostname idp) := None) \<and>
                  sem cp3 = sem ?cp \<and> fetches w3 = fetches w2 @ [?bg] \<and>
                  (\<forall>E'' c' w4.
                     (case KeyFunc E'' c' cp3 w4 of
                        (r', spawned', cp5, w5) \<Rightarrow>
                          fetches w5 = fetches w4 @ [c'] \<and> spawned' = None \<and>
                          r' = snd (Provider_KeyFunc E'' c' (provider ?cp)))))"
    by (simp_all add: f)
  obtain crashed cp3 w3 where
    k2: "refresh_goroutine (unreachable 40) ''idp.example.com'' cp1 w1 = (crashed, cp3, w3)"
    using prod_cases3 by blast
  from ko have
    "(case refresh_goroutine (unreachable 40) (url_Hostname idp) cp1 (at_time 2000) of
        (crashed, cp3, w3) \<Rightarrow>
          \<not> crashed \<and> cache cp3 = (cache ?cp)((url_Hostname idp) := None) \<and>
          sem cp3 = sem ?cp \<and> fetches w3 = fetches (at_time 2000) @ [?bg] \<and>
          (\<forall>E'' c' w4.
             (case KeyFunc E'' c' cp3 w4 of
                (r', spawned', cp5, w5) \<Rightarrow>
                  fetches w5 = fetches w4 @ [c'] \<and> spawned' = None \<and>
                  r' = snd (Provider_KeyFunc E'' c' (provider ?cp)))))"
    by (rule g1[THEN spec[where x = "unreachable 40"], THEN spec[where x = "at_time 2000"],
                THEN spec, THEN mp])
  with k2 s1
  have s2: "cache cp3 ''idp.example.com'' = None" "fetches w3 = [?bg]"
    and g2: "\<forall>E'' c' w4.
               (case KeyFunc E'' c' cp3 w4 of
                  (r', spawned', cp5, w5) \<Rightarrow>
                    fetches w5 = fetches w4 @ [c'] \<and> spawned' = None \<and>
                    r' = snd (Provider_KeyFunc E'' c' (provider ?cp)))"
    by (simp_all add: f)
  obtain r' spawned' cp5 w5 where
    k3: "KeyFunc (serving 200 ''{keys:[b1,b2]}'' 40) (Caller ''r2'') cp3 w3 = (r', spawned', cp5, w5)"
    using prod_cases4 by blast
  have
    "(case KeyFunc (serving 200 ''{keys:[b1,b2]}'' 40) (Caller ''r2'') cp3 w3 of
        (r', spawned', cp5, w5) \<Rightarrow>
          fetches w5 = fetches w3 @ [Caller ''r2''] \<and> spawned' = None \<and>
          r' = snd (Provider_KeyFunc (serving 200 ''{keys:[b1,b2]}'' 40) (Caller ''r2'')
                     (provider ?cp)))"
    by (rule g2[THEN spec[where x = "serving 200 ''{keys:[b1,b2]}'' 40"],
                THEN spec[where x = "Caller ''r2''"], THEN spec[where x = w3]])
  with k3 ok s2 have s3: "r' = KeySet keys_B" "fetches w5 = [?bg, Caller ''r2'']"
    by simp_all
  from k1 k2 k3 s1 s2 s3 show ?thesis by simp
qed

section \<open>Construction\<close>













lemma samples_constructed:
  "NewProvider (Some idp) [] = Some p_discover \<and>
   NewProvider (Some idp) [WithCustomJWKSURI (Some jwks_uri)] = Some p_custom \<and>
   NewCachingProvider (Some idp) 100
     [ProviderOpt (WithCustomJWKSURI (Some jwks_uri)), CachingOpt (WithSynchronousRefresh b)] =
     Inr (cp_empty b)"
  by (simp add: NewProvider_def NewCachingProvider_def WithCustomJWKSURI_def
        WithSynchronousRefresh_def p_discover_def p_custom_def cp_empty_def)

section \<open>Concurrent callers: the lock and the gate\<close>

lemma number_Nil: "number P [] = 0"
  by (simp add: number_def)

lemma number_snoc: "number P (ps @ [p]) = number P ps + (if P p then 1 else 0)"
  by (simp add: number_def)

lemma number_update_add:
  "i < length ps \<Longrightarrow>
   number P (ps[i := q]) + (if P (ps ! i) then 1 else 0) = number P ps + (if P q then 1 else 0)"
proof (induction ps arbitrary: i)
  case Nil
  then show ?case by simp
next
  case (Cons p ps)
  show ?case
  proof (cases i)
    case 0
    then show ?thesis by (simp add: number_def)
  next
    case (Suc j)
    with Cons.prems have "j < length ps" by simp
    from Cons.IH[OF this] Suc show ?thesis by (simp add: number_def)
  qed
qed

lemma number_update:
  "i < length ps \<Longrightarrow>
   number P (ps[i := q]) = number P ps + (if P q then 1 else 0) - (if P (ps ! i) then 1 else 0)"
  using number_update_add[of i ps P q] by (auto split: if_splits)

lemma number_pos: "i < length ps \<Longrightarrow> P (ps ! i) \<Longrightarrow> 0 < number P ps"
  unfolding number_def by (metis filter_empty_conv length_greater_0_conv nth_mem)

lemma inv_start: "sem cp = NewWeighted 1 \<Longrightarrow> inv (start cp w)"
  by (simp add: inv_def start_def NewWeighted_def number_Nil)

lemma refreshKey_sem: "refreshKey E c issuer cp w = (r, cp', w') \<Longrightarrow> sem cp' = sem cp"
  by (auto simp: refreshKey_def Let_def split: outcome.splits)

lemmas pc_preds = holds_gate_def fetching_def

lemma inv_rlock: "inv s \<Longrightarrow> rlock i s = Some s' \<Longrightarrow> inv s'"
  by (auto simp: rlock_def at_def goto_def inv_def number_update pc_preds
           split: option.splits pc.splits if_splits)

lemma inv_lock: "inv s \<Longrightarrow> lock i s = Some s' \<Longrightarrow> inv s'"
  by (auto simp: lock_def at_def goto_def inv_def number_update pc_preds
           split: option.splits pc.splits if_splits)

lemma inv_evict: "inv s \<Longrightarrow> evict i s = Some s' \<Longrightarrow> inv s'"
  by (auto simp: evict_def at_def goto_def inv_def number_update pc_preds
           split: option.splits pc.splits if_splits)

lemma inv_fetch: "inv s \<Longrightarrow> fetch i E s = Some s' \<Longrightarrow> inv s'"
  using number_pos[of i "threads s" fetching] number_pos[of i "threads s" holds_gate]
  by (auto simp: fetch_def at_def goto_def inv_def number_update pc_preds
           dest!: refreshKey_sem
           split: option.splits pc.splits if_splits prod.splits origin.splits outcome.splits)

lemma inv_release: "inv s \<Longrightarrow> release i s = Some s' \<Longrightarrow> inv s'"
  using number_pos[of i "threads s" holds_gate]
  by (auto simp: release_def at_def goto_def inv_def number_update pc_preds Release_def Let_def
           split: option.splits pc.splits if_splits prod.splits origin.splits)

lemma inv_look: "inv s \<Longrightarrow> look i s = Some s' \<Longrightarrow> inv s'"
  by (auto simp: look_def at_def goto_def inv_def number_update number_snoc pc_preds TryAcquire_def
                 Let_def RUnlock_def list_update_append1
           split: option.splits pc.splits if_splits prod.splits)

lemma inv_step: "inv s \<Longrightarrow> step l s = Some s' \<Longrightarrow> inv s'"
proof (cases l)
  case (Arrive c)
  assume "inv s" "step l s = Some s'"
  with Arrive show ?thesis
    by (auto simp: step_def inv_def number_snoc pc_preds split: if_splits)
next
  case (Tick d)
  assume "inv s" "step l s = Some s'"
  with Tick show ?thesis
    by (auto simp: step_def inv_def split: if_splits)
qed (auto simp: step_def split: if_splits
          intro: inv_rlock inv_look inv_lock inv_fetch inv_evict inv_release)

lemma inv_run: "inv s \<Longrightarrow> run ls s = Some s' \<Longrightarrow> inv s'"
proof (induction ls arbitrary: s)
  case Nil
  then show ?case by simp
next
  case (Cons l ls)
  then show ?case by (auto split: option.splits dest: inv_step)
qed

lemma look_gate_held:
  assumes "inv s" "\<not> dead s" "sem_cur (sem (cprov s)) = 1" "at s i = Some (Looking c)"
    "IssuerURL (provider (cprov s)) = Some u" "cache (cprov s) (url_Hostname u) = Some cached"
  shows "step (DoLook i) s = Some (goto i (Returned (KeySet (jwks cached))) (RUnlock s))"
  using assms by (simp add: step_def look_def inv_def TryAcquire_def Let_def)

text \<open>
  The two models agree: the steps of one caller with nothing in between are \<open>KeyFunc\<close>,
  and the steps of the goroutine are \<open>refresh_goroutine\<close>.
\<close>

lemma mu_free: "readers (mu s) = 0 \<Longrightarrow> \<not> writer (mu s) \<Longrightarrow> mu s = \<lparr>readers = 0, writer = False\<rparr>"
  by (cases "mu s") simp

lemma KeyFunc_steps_alone:
  assumes d: "\<not> dead s" and m: "readers (mu s) = 0" "\<not> writer (mu s)"
    and a: "at s i = Some (Called c)"
    and u: "IssuerURL (provider (cprov s)) = Some u"
  shows "KeyFunc_steps i E s =
     (case KeyFunc E c (cprov s) (wld s) of
        (r, spawned, cp', w') \<Rightarrow>
          Some (s\<lparr>cprov := cp', wld := w',
                 threads := (threads s)[i := Returned r] @
                   (case spawned of
                      None \<Rightarrow> []
                    | Some issuer \<Rightarrow>
                        [Refresh FromGoroutine (WithTimeout Background (15 * 1000000000)) issuer])\<rparr>))"
proof -
  obtain cp ths w where s: "s = \<lparr>cprov = cp, mu = \<lparr>readers = 0, writer = False\<rparr>, wld = w,
                                  threads = ths, dead = False\<rparr>"
    using d mu_free[OF m] by (cases s) auto
  from a have i: "i < length ths" "ths ! i = Called c"
    by (auto simp: at_def s split: if_splits)
  from u have u': "IssuerURL (provider cp) = Some u"
    by (simp add: s)
  note defs = KeyFunc_steps_def KeyFunc_def step_def rlock_def look_def lock_def fetch_def
    release_def at_def goto_def RUnlock_def Let_def list_update_append1 nth_append
  show ?thesis
  proof (cases "cache cp (url_Hostname u)")
    case None
    obtain r cp' w' where rk: "refreshKey E c (url_Hostname u) cp w = (r, cp', w')"
      using prod_cases3 by blast
    with None i u' show ?thesis
      by (simp add: defs s)
  next
    case (Some cached)
    show ?thesis
    proof (cases "expiresAt cached < now w")
      case False
      with Some i u' show ?thesis
        by (simp add: defs s)
    next
      case expired: True
      show ?thesis
      proof (cases "fst (TryAcquire 1 (sem cp))")
        case False
        with expired Some i u' show ?thesis
          by (simp add: defs s)
      next
        case acquired: True
        show ?thesis
        proof (cases "synchronousRefresh cp")
          case False
          with acquired expired Some i u' show ?thesis
            by (simp add: defs s)
        next
          case sync: True
          let ?cp1 = "cp\<lparr>sem := snd (TryAcquire 1 (sem cp))\<rparr>"
          obtain r cp' w' where
            rk: "refreshKey E c (url_Hostname u) ?cp1 w = (r, cp', w')"
            using prod_cases3 by blast
          obtain p sm' where rl: "Release 1 (sem cp') = (p, sm')"
            by (cases "Release 1 (sem cp')")
          from rk rl sync acquired expired Some i u' show ?thesis
            by (simp add: defs s)
        qed
      qed
    qed
  qed
qed

lemma goroutine_steps_alone:
  assumes d: "\<not> dead s" and m: "readers (mu s) = 0" "\<not> writer (mu s)"
    and a: "at s j = Some (Refresh FromGoroutine (WithTimeout Background (15 * 1000000000)) issuer)"
  shows "goroutine_steps j E s =
     (case refresh_goroutine E issuer (cprov s) (wld s) of
        (crashed, cp', w') \<Rightarrow>
          Some (s\<lparr>cprov := cp', wld := w', threads := (threads s)[j := Ended], dead := crashed\<rparr>))"
proof -
  let ?bg = "WithTimeout Background (15 * 1000000000)"
  obtain cp ths w where s: "s = \<lparr>cprov = cp, mu = \<lparr>readers = 0, writer = False\<rparr>, wld = w,
                                  threads = ths, dead = False\<rparr>"
    using d mu_free[OF m] by (cases s) auto
  from a have j: "j < length ths" "ths ! j = Refresh FromGoroutine ?bg issuer"
    by (auto simp: at_def s split: if_splits)
  note defs = goroutine_steps_def refresh_goroutine_def step_def lock_def fetch_def
    evict_def release_def at_def goto_def Let_def
  obtain r cp' w' where rk: "refreshKey E ?bg issuer cp w = (r, cp', w')"
    using prod_cases3 by blast
  show ?thesis
  proof (cases r)
    case (Failure e)
    obtain p sm' where rl: "Release 1 (sem cp') = (p, sm')"
      by (cases "Release 1 (sem cp')")
    with Failure rk j show ?thesis
      by (simp add: defs s)
  next
    case (KeySet k)
    obtain p sm' where rl: "Release 1 (sem cp') = (p, sm')"
      by (cases "Release 1 (sem cp')")
    with KeySet rk j show ?thesis
      by (simp add: defs s)
  next
    case Panic
    obtain p sm' where rl: "Release 1 (sem cp') = (p, sm')"
      by (cases "Release 1 (sem cp')")
    with Panic rk j show ?thesis
      by (simp add: defs s)
  qed
qed

text \<open>
  C7, as the code has it. In every run of any number of callers, from a provider whose
  semaphore has one permit free: at most one goroutine is inside the critical section
  of \<open>refreshKey\<close>, so no two Key Fetcher invocations overlap (the write lock); the
  goroutines between a successful \<open>TryAcquire\<close> and their \<open>Release\<close> are as many as the
  permits held, at most one, so at most one refresh started from an expired entry is
  in flight (the gate); and while the permit is held, a caller that finds an entry
  returns its key set and starts no refresh.
\<close>

theorem refresh_exclusion:
  "sem cp = NewWeighted 1 \<and> run ls (start cp w) = Some s \<longrightarrow>
     number fetching (threads s) \<le> 1 \<and>
     number holds_gate (threads s) = sem_cur (sem (cprov s)) \<and>
     sem_cur (sem (cprov s)) \<le> 1 \<and>
     (\<forall>i c u cached.
        \<not> dead s \<and> sem_cur (sem (cprov s)) = 1 \<and> at s i = Some (Looking c) \<and>
        IssuerURL (provider (cprov s)) = Some u \<and>
        cache (cprov s) (url_Hostname u) = Some cached \<longrightarrow>
        step (DoLook i) s = Some (goto i (Returned (KeySet (jwks cached))) (RUnlock s)))"
proof
  assume a: "sem cp = NewWeighted 1 \<and> run ls (start cp w) = Some s"
  then have i: "inv s"
    using inv_run[OF inv_start] by blast
  then have "number fetching (threads s) \<le> 1"
    and "number holds_gate (threads s) = sem_cur (sem (cprov s))"
    and "sem_cur (sem (cprov s)) \<le> 1"
    by (simp_all add: inv_def)
  with i show "number fetching (threads s) \<le> 1 \<and>
     number holds_gate (threads s) = sem_cur (sem (cprov s)) \<and>
     sem_cur (sem (cprov s)) \<le> 1 \<and>
     (\<forall>i c u cached.
        \<not> dead s \<and> sem_cur (sem (cprov s)) = 1 \<and> at s i = Some (Looking c) \<and>
        IssuerURL (provider (cprov s)) = Some u \<and>
        cache (cprov s) (url_Hostname u) = Some cached \<longrightarrow>
        step (DoLook i) s = Some (goto i (Returned (KeySet (jwks cached))) (RUnlock s)))"
    using look_gate_held by blast
qed

lemmas step_defs = step_def rlock_def look_def lock_def fetch_def evict_def release_def
  at_def goto_def RUnlock_def start_def refreshKey_def TryAcquire_def Release_def Let_def

theorem refresh_exclusion_witness:
  "\<exists>s. run [Arrive (Caller ''r1''), Arrive (Caller ''r2''), DoRLock 0, DoRLock 1, DoLook 0]
          (start (cp_holding False 1000) (at_time 2000)) = Some s \<and>
       number holds_gate (threads s) = 1 \<and> number fetching (threads s) \<le> 1 \<and>
       step (DoLook 1) s = Some (goto 1 (Returned (KeySet keys_A)) (RUnlock s))"
proof -
  let ?ls = "[Arrive (Caller ''r1''), Arrive (Caller ''r2''), DoRLock 0, DoRLock 1, DoLook 0]"
  let ?cp = "cp_holding False 1000"
  have "\<exists>s. run ?ls (start ?cp (at_time 2000)) = Some s \<and> \<not> dead s \<and>
            sem_cur (sem (cprov s)) = 1 \<and> at s 1 = Some (Looking (Caller ''r2'')) \<and>
            IssuerURL (provider (cprov s)) = Some idp \<and>
            cache (cprov s) (url_Hostname idp) = Some \<lparr>jwks = keys_A, expiresAt = 1000\<rparr>"
    by (simp add: step_defs sample_defs)
  then obtain s where r: "run ?ls (start ?cp (at_time 2000)) = Some s"
    and s: "\<not> dead s \<and> sem_cur (sem (cprov s)) = 1 \<and> at s 1 = Some (Looking (Caller ''r2'')) \<and>
            IssuerURL (provider (cprov s)) = Some idp \<and>
            cache (cprov s) (url_Hostname idp) = Some \<lparr>jwks = keys_A, expiresAt = 1000\<rparr>"
    by blast
  have g: "sem ?cp = NewWeighted 1"
    by (simp add: cp_holding_def cp_empty_def)
  note ex = refresh_exclusion[where cp = ?cp and ls = ?ls and w = "at_time 2000" and s = s,
               THEN mp, OF conjI[OF g r]]
  have f: "number fetching (threads s) \<le> 1"
    by (rule ex[THEN conjunct1])
  have h: "number holds_gate (threads s) = sem_cur (sem (cprov s))"
    by (rule ex[THEN conjunct2, THEN conjunct1])
  have l: "\<forall>i c u cached.
        \<not> dead s \<and> sem_cur (sem (cprov s)) = 1 \<and> at s i = Some (Looking c) \<and>
        IssuerURL (provider (cprov s)) = Some u \<and>
        cache (cprov s) (url_Hostname u) = Some cached \<longrightarrow>
        step (DoLook i) s = Some (goto i (Returned (KeySet (jwks cached))) (RUnlock s))"
    by (rule ex[THEN conjunct2, THEN conjunct2, THEN conjunct2])
  from l s have "step (DoLook 1) s =
      Some (goto 1 (Returned (KeySet (jwks \<lparr>jwks = keys_A, expiresAt = 1000\<rparr>))) (RUnlock s))"
    by blast
  with r s f h show ?thesis by auto
qed

text \<open>
  C7 as stated fails on the no-entry path, which does not take the gate. Two callers
  arrive at an empty cache and both find no entry: two refreshes are in flight at once
  with no permit held, and run to the end they invoke the Key Fetcher twice.
\<close>

theorem miss_path_counterexample:
  "observe (run [Arrive (Caller ''r1''), Arrive (Caller ''r2''), DoRLock 0, DoRLock 1, DoLook 0, DoLook 1,
           DoLock 0] (start (cp_empty False) (at_time 1000))) =
     Some ([Fetching FromMiss (Caller ''r1'') ''idp.example.com'',
            Refresh FromMiss (Caller ''r2'') ''idp.example.com''], 0, []) \<and>
   number refreshing [Fetching FromMiss (Caller ''r1'') ''idp.example.com'',
            Refresh FromMiss (Caller ''r2'') ''idp.example.com''] = 2 \<and>
   observe (run [Arrive (Caller ''r1''), Arrive (Caller ''r2''), DoRLock 0, DoRLock 1, DoLook 0, DoLook 1,
           DoLock 0, DoFetch 0 (serving 200 ''{keys:[a1]}'' 40), DoLock 1,
           DoFetch 1 (serving 200 ''{keys:[a1]}'' 40)] (start (cp_empty False) (at_time 1000))) =
     Some ([Returned (KeySet keys_A), Returned (KeySet keys_A)], 0, [Caller ''r1'', Caller ''r2''])"
  by (simp add: observe_def step_defs sample_defs fetch_defs number_def refreshing_def)

end
